theory Spec2Isabelle
  imports Main
begin

section \<open>The event reducer of the chat client (hook \<open>useCodexEvents\<close>)\<close>

text \<open>
  The hook keeps its per-stream state in refs (maps keyed by the event id or the exec
  call id), reacts to one backend event at a time in \<open>handleCodexEvent\<close>, and talks to the
  conversation store through \<open>addMessage\<close>, \<open>updateMessage\<close> and \<open>setSessionLoading\<close>.
  The model threads the refs through as a record and returns the store calls of one event
  as a list, in call order. Strings are \<open>string\<close>; the empty string is JavaScript's only
  falsy string.
\<close>

subsection \<open>Printing numbers and joining arrays\<close>

definition digitChar :: "nat \<Rightarrow> char" where
  "digitChar d = ''0123456789'' ! d"

text \<open>Template literals print a non-negative integer in decimal, without leading zeros.\<close>

function showNat :: "nat \<Rightarrow> string" where
  "showNat n = (if n < 10 then [digitChar n] else showNat (n div 10) @ [digitChar (n mod 10)])"
  by pat_completeness auto
termination
  by (relation "measure (\<lambda>n. n)") auto

declare showNat.simps [simp del]

definition showInt :: "int \<Rightarrow> string" where
  "showInt i = (if i < 0 then ''-'' @ showNat (nat (- i)) else showNat (nat i))"

text \<open>\<open>Array.prototype.join\<close>: the empty array gives the empty string.\<close>

fun join :: "string \<Rightarrow> string list \<Rightarrow> string" where
  "join sep [] = []"
| "join sep [x] = x"
| "join sep (x # y # ys) = x @ sep @ join sep (y # ys)"

subsection \<open>Data\<close>

text \<open>The \<open>which\<close> parameter of \<open>scheduleFlush\<close>: \<open>'agent' | 'reasoning'\<close>.\<close>

datatype which = Agent | Reasoning

text \<open>A value of the stream maps: \<open>{ messageId: string; buffer: string }\<close>.\<close>

record streamEntry =
  messageId :: string
  buffer :: string

datatype messageType = TypeUser | TypeAgent | TypeSystem

text \<open>\<open>ChatMessage\<close>, as the handler builds it; \<open>isStreaming\<close> is optional.\<close>

record chatMessage =
  cm_id :: string
  cm_type :: messageType
  cm_content :: string
  cm_timestamp :: nat
  cm_isStreaming :: "bool option"

datatype role = RoleUser | RoleAssistant | RoleSystem

text \<open>The object \<open>addMessageToStore\<close> hands to the store: id, role, content, timestamp.\<close>

record conversationMessage =
  msg_id :: string
  msg_role :: role
  msg_content :: string
  msg_timestamp :: nat

text \<open>The partial update of \<open>updateMessage\<close>: the fields that are present.\<close>

record partialFields =
  upd_content :: "string option"
  upd_isStreaming :: "bool option"

datatype approvalRequest =
  ExecApproval string "string list" string
| PatchApproval string string "string list"

text \<open>
  The calls the handler makes on its collaborators: the conversation store, the legacy
  stream controller and the approval callback.
\<close>

datatype intent =
  CreateConversation string string string
| AddMessage string conversationMessage
| UpdateMessage string string partialFields
| SetSessionLoading string bool
| ControllerClearAll
| ControllerFinalize bool
| OnApprovalRequest approvalRequest

text \<open>The payload \<open>msg\<close> of an event, by its \<open>type\<close> tag; \<open>Unhandled\<close> is the default branch.\<close>

datatype msg =
  SessionConfigured string
| TurnStarted
| TaskStarted
| TaskComplete
| TurnComplete
| TurnAborted
| AgentMessage string
| AgentMessageDelta string
| AgentReasoningDelta string
| AgentReasoningRawContentDelta string
| AgentReasoning string
| AgentReasoningRawContent string
| AgentReasoningSectionBreak
| TokenCount
| TokenCountUpdate
| PlanUpdate "(string \<times> string) list"
| TurnDiff string
| ExecApprovalRequest "string list" string
| PatchApprovalRequest string "string list"
| ApplyPatchApprovalRequest string "string list"
| ExecCommandBegin string "string list" string
| ExecCommandOutputDelta string "nat list"
| ExecCommandEnd string int
| PatchApplyBegin
| PatchApplyEnd bool
| Error string
| ShutdownComplete
| BackgroundEvent string
| Unhandled string

text \<open>\<open>CodexEvent\<close>: the correlation id and the payload.\<close>

record codexEvent =
  ev_id :: string
  ev_msg :: msg

text \<open>
  What is fixed for one mounted hook: the \<open>sessionId\<close> prop, and the platform's
  \<open>TextDecoder\<close>, whose \<open>decode\<close> either returns text or throws (\<open>None\<close>).
\<close>

record env =
  sessionId :: string
  textDecode :: "nat list \<Rightarrow> string option"

text \<open>
  What one event reads from its surroundings: \<open>Date.now()\<close> for the message id,
  \<open>new Date()\<close> for the timestamp, the suffix \<open>Math.random()\<close> gives the error id, the
  handle \<open>requestAnimationFrame\<close> returns, and whether \<open>conversations\<close> holds the session.
\<close>

record ambient =
  now :: nat
  stamp :: nat
  rnd :: string
  rafHandle :: nat
  conversationExists :: bool

text \<open>
  The refs of the hook. \<open>rafQueue\<close> is not a ref: it is the list of frame callbacks that
  \<open>scheduleFlush\<close> has registered with the platform and that have not run yet.
\<close>

record state =
  currentStreamingMessageId :: "string option"
  currentStreamingBuffer :: string
  agentStreams :: "string \<rightharpoonup> streamEntry"
  reasoningStreams :: "string \<rightharpoonup> streamEntry"
  agentFlush :: "string \<rightharpoonup> nat"
  reasoningFlush :: "string \<rightharpoonup> nat"
  execStreams :: "string \<rightharpoonup> streamEntry"
  shownDiffs :: "string set"
  rafQueue :: "(which \<times> string) list"

definition initialState :: state where
  "initialState = \<lparr> currentStreamingMessageId = None, currentStreamingBuffer = [],
     agentStreams = Map.empty, reasoningStreams = Map.empty,
     agentFlush = Map.empty, reasoningFlush = Map.empty,
     execStreams = Map.empty, shownDiffs = {}, rafQueue = [] \<rparr>"

subsection \<open>Store access and the flush scheduler\<close>

definition roleOf :: "messageType \<Rightarrow> role" where
  "roleOf t = (if t = TypeUser then RoleUser else if t = TypeAgent then RoleAssistant else RoleSystem)"

text \<open>
  \<open>addMessageToStore\<close>: create the conversation when it is not found, then add the
  converted message. The conversion keeps id, role, content and timestamp only.
\<close>

definition addMessageToStore :: "env \<Rightarrow> ambient \<Rightarrow> chatMessage \<Rightarrow> intent list" where
  "addMessageToStore e a m =
     (if conversationExists a then [] else [CreateConversation ''New Chat'' ''agent'' (sessionId e)])
     @ [AddMessage (sessionId e)
          \<lparr> msg_id = cm_id m, msg_role = roleOf (cm_type m),
            msg_content = cm_content m, msg_timestamp = cm_timestamp m \<rparr>]"

definition streamsOf :: "which \<Rightarrow> state \<Rightarrow> (string \<rightharpoonup> streamEntry)" where
  "streamsOf w s = (if w = Agent then agentStreams s else reasoningStreams s)"

definition flagsOf :: "which \<Rightarrow> state \<Rightarrow> (string \<rightharpoonup> nat)" where
  "flagsOf w s = (if w = Agent then agentFlush s else reasoningFlush s)"

definition setFlags :: "which \<Rightarrow> (string \<rightharpoonup> nat) \<Rightarrow> state \<Rightarrow> state" where
  "setFlags w f s = (if w = Agent then s\<lparr>agentFlush := f\<rparr> else s\<lparr>reasoningFlush := f\<rparr>)"

text \<open>
  \<open>scheduleFlush\<close>: nothing when the id is flagged; otherwise register the frame callback
  and store its handle under the id. The cancel function it returns is dropped by every
  caller.
\<close>

definition scheduleFlush :: "which \<Rightarrow> string \<Rightarrow> ambient \<Rightarrow> state \<Rightarrow> state" where
  "scheduleFlush w i a s =
     (if flagsOf w s i \<noteq> None then s
      else setFlags w ((flagsOf w s)(i \<mapsto> rafHandle a)) (s\<lparr>rafQueue := rafQueue s @ [(w, i)]\<rparr>))"

text \<open>
  The body of the frame callback: drop the flag, then write the buffer the stream has at
  that moment, when the stream is still there.
\<close>

definition flushCallback :: "env \<Rightarrow> which \<Rightarrow> string \<Rightarrow> state \<Rightarrow> state \<times> intent list" where
  "flushCallback e w i s =
     (let s' = setFlags w ((flagsOf w s)(i := None)) s in
      case streamsOf w s' i of
        None \<Rightarrow> (s', [])
      | Some st \<Rightarrow> (s', [UpdateMessage (sessionId e) (messageId st)
                           \<lparr> upd_content = Some (buffer st), upd_isStreaming = None \<rparr>]))"

subsection \<open>The event handler\<close>

definition newline :: string where
  "newline = [CHR 0x0A]"

text \<open>A string or null used as a condition: null and the empty string are falsy.\<close>

definition truthy :: "string option \<Rightarrow> bool" where
  "truthy x = (case x of None \<Rightarrow> False | Some t \<Rightarrow> t \<noteq> [])"

text \<open>
  \<open>handleCodexEvent\<close>, one equation per \<open>case\<close> of the switch, in the source's order;
  the two pairs of cases that share a body are written out twice. The result is the refs
  after the event and the collaborator calls the event made.
\<close>

fun handleCodexEvent :: "env \<Rightarrow> ambient \<Rightarrow> string \<Rightarrow> msg \<Rightarrow> state \<Rightarrow> state \<times> intent list" where
  "handleCodexEvent e a i (SessionConfigured sid) s = (s, [])"
| "handleCodexEvent e a i TurnStarted s =
     (s\<lparr>currentStreamingMessageId := None, currentStreamingBuffer := [], shownDiffs := {}\<rparr>,
      [ControllerClearAll, SetSessionLoading (sessionId e) True])"
| "handleCodexEvent e a i TaskStarted s =
     (s\<lparr>currentStreamingMessageId := None\<rparr>,
      [SetSessionLoading (sessionId e) True, ControllerClearAll])"
| "handleCodexEvent e a i TaskComplete s =
     (if truthy (currentStreamingMessageId s)
      then (s\<lparr>currentStreamingMessageId := None\<rparr>,
            [SetSessionLoading (sessionId e) False, ControllerFinalize True])
      else (s, [SetSessionLoading (sessionId e) False]))"
| "handleCodexEvent e a i TurnComplete s =
     (if truthy (currentStreamingMessageId s)
      then (s\<lparr>currentStreamingMessageId := None, shownDiffs := {}\<rparr>,
            [SetSessionLoading (sessionId e) False, ControllerFinalize True])
      else (s\<lparr>shownDiffs := {}\<rparr>, [SetSessionLoading (sessionId e) False]))"
| "handleCodexEvent e a i TurnAborted s =
     (s\<lparr>currentStreamingMessageId := None, currentStreamingBuffer := [], shownDiffs := {}\<rparr>,
      addMessageToStore e a
        \<lparr> cm_id = sessionId e @ ''-turn-abort-'' @ showNat (now a), cm_type = TypeSystem,
          cm_content = ''Turn aborted'', cm_timestamp = stamp a, cm_isStreaming = None \<rparr>
      @ [SetSessionLoading (sessionId e) False, ControllerClearAll])"
| "handleCodexEvent e a i (AgentMessage text) s =
     (if text = [] then (s, [])
      else case agentStreams s i of
        None \<Rightarrow>
          (let mid = sessionId e @ ''-agent-'' @ showNat (now a) in
           (s\<lparr>agentStreams := (agentStreams s)(i \<mapsto> \<lparr>messageId = mid, buffer = text\<rparr>)\<rparr>,
            addMessageToStore e a
              \<lparr> cm_id = mid, cm_type = TypeAgent, cm_content = text,
                cm_timestamp = stamp a, cm_isStreaming = None \<rparr>))
      | Some existing \<Rightarrow>
          (if text \<noteq> buffer existing
           then (let mid = sessionId e @ ''-agent-'' @ showNat (now a) in
                 (s\<lparr>agentStreams := (agentStreams s)(i \<mapsto> \<lparr>messageId = mid, buffer = text\<rparr>)\<rparr>,
                  addMessageToStore e a
                    \<lparr> cm_id = mid, cm_type = TypeAgent, cm_content = text,
                      cm_timestamp = stamp a, cm_isStreaming = None \<rparr>))
           else (s, [])))"
| "handleCodexEvent e a i (AgentMessageDelta delta) s =
     (let (st, s1, out) =
        (case agentStreams s i of
           Some st \<Rightarrow> (st, s, [])
         | None \<Rightarrow>
             (let st = \<lparr>messageId = sessionId e @ ''-agent-'' @ showNat (now a), buffer = []\<rparr> in
              (st, s\<lparr>agentStreams := (agentStreams s)(i \<mapsto> st)\<rparr>,
               addMessageToStore e a
                 \<lparr> cm_id = messageId st, cm_type = TypeAgent, cm_content = [],
                   cm_timestamp = stamp a, cm_isStreaming = Some True \<rparr>)))
      in if delta \<noteq> []
         then (scheduleFlush Agent i a
                 (s1\<lparr>agentStreams := (agentStreams s1)(i \<mapsto> st\<lparr>buffer := buffer st @ delta\<rparr>)\<rparr>), out)
         else (s1, out))"
| "handleCodexEvent e a i (AgentReasoningDelta delta) s =
     (let (st, s1, out) =
        (case reasoningStreams s i of
           Some st \<Rightarrow> (st, s, [])
         | None \<Rightarrow>
             (let st = \<lparr>messageId = sessionId e @ ''-reasoning-'' @ showNat (now a), buffer = []\<rparr> in
              (st, s\<lparr>reasoningStreams := (reasoningStreams s)(i \<mapsto> st)\<rparr>,
               addMessageToStore e a
                 \<lparr> cm_id = messageId st, cm_type = TypeAgent, cm_content = [],
                   cm_timestamp = stamp a, cm_isStreaming = Some True \<rparr>)))
      in if delta \<noteq> []
         then (scheduleFlush Reasoning i a
                 (s1\<lparr>reasoningStreams := (reasoningStreams s1)(i \<mapsto> st\<lparr>buffer := buffer st @ delta\<rparr>)\<rparr>), out)
         else (s1, out))"
| "handleCodexEvent e a i (AgentReasoningRawContentDelta delta) s =
     (let (st, s1, out) =
        (case reasoningStreams s i of
           Some st \<Rightarrow> (st, s, [])
         | None \<Rightarrow>
             (let st = \<lparr>messageId = sessionId e @ ''-reasoning-'' @ showNat (now a), buffer = []\<rparr> in
              (st, s\<lparr>reasoningStreams := (reasoningStreams s)(i \<mapsto> st)\<rparr>,
               addMessageToStore e a
                 \<lparr> cm_id = messageId st, cm_type = TypeAgent, cm_content = [],
                   cm_timestamp = stamp a, cm_isStreaming = Some True \<rparr>)))
      in if delta \<noteq> []
         then (scheduleFlush Reasoning i a
                 (s1\<lparr>reasoningStreams := (reasoningStreams s1)(i \<mapsto> st\<lparr>buffer := buffer st @ delta\<rparr>)\<rparr>), out)
         else (s1, out))"
| "handleCodexEvent e a i (AgentReasoning text) s =
     (case reasoningStreams s i of
        Some st \<Rightarrow>
          (let b = (if text \<noteq> [] then text else buffer st) in
           (s\<lparr>reasoningStreams := (reasoningStreams s)(i := None)\<rparr>,
            [UpdateMessage (sessionId e) (messageId st)
               \<lparr> upd_content = Some b, upd_isStreaming = Some False \<rparr>,
             SetSessionLoading (sessionId e) False]))
      | None \<Rightarrow>
          (s, (if text \<noteq> []
               then addMessageToStore e a
                      \<lparr> cm_id = sessionId e @ ''-reasoning-'' @ showNat (now a), cm_type = TypeAgent,
                        cm_content = text, cm_timestamp = stamp a, cm_isStreaming = None \<rparr>
               else [])
              @ [SetSessionLoading (sessionId e) False]))"
| "handleCodexEvent e a i (AgentReasoningRawContent text) s =
     (case reasoningStreams s i of
        Some st \<Rightarrow>
          (let b = (if text \<noteq> [] then text else buffer st) in
           (s\<lparr>reasoningStreams := (reasoningStreams s)(i := None)\<rparr>,
            [UpdateMessage (sessionId e) (messageId st)
               \<lparr> upd_content = Some b, upd_isStreaming = Some False \<rparr>,
             SetSessionLoading (sessionId e) False]))
      | None \<Rightarrow>
          (s, (if text \<noteq> []
               then addMessageToStore e a
                      \<lparr> cm_id = sessionId e @ ''-reasoning-'' @ showNat (now a), cm_type = TypeAgent,
                        cm_content = text, cm_timestamp = stamp a, cm_isStreaming = None \<rparr>
               else [])
              @ [SetSessionLoading (sessionId e) False]))"
| "handleCodexEvent e a i AgentReasoningSectionBreak s =
     (case reasoningStreams s i of
        Some st \<Rightarrow>
          (let b = buffer st @ newline @ newline in
           (s\<lparr>reasoningStreams := (reasoningStreams s)(i \<mapsto> st\<lparr>buffer := b\<rparr>)\<rparr>,
            [UpdateMessage (sessionId e) (messageId st)
               \<lparr> upd_content = Some b, upd_isStreaming = None \<rparr>]))
      | None \<Rightarrow> (s, []))"
| "handleCodexEvent e a i TokenCount s = (s, [])"
| "handleCodexEvent e a i TokenCountUpdate s = (s, [])"
| "handleCodexEvent e a i (PlanUpdate plan) s =
     (s, addMessageToStore e a
           \<lparr> cm_id = sessionId e @ ''-plan-'' @ showNat (now a), cm_type = TypeSystem,
             cm_content =
               join newline (''Plan update:''
                 # map (\<lambda>(status, step). ''- ['' @ status @ ''] '' @ step) plan),
             cm_timestamp = stamp a, cm_isStreaming = None \<rparr>)"
| "handleCodexEvent e a i (TurnDiff raw) s =
     (if raw = [] then (s, [])
      else if raw \<in> shownDiffs s then (s, [])
      else (s\<lparr>shownDiffs := insert raw (shownDiffs s)\<rparr>,
            addMessageToStore e a
              \<lparr> cm_id = sessionId e @ ''-diff-'' @ showNat (now a), cm_type = TypeSystem,
                cm_content = ''```diff'' @ newline @ raw @ newline @ ''```'',
                cm_timestamp = stamp a, cm_isStreaming = None \<rparr>))"
| "handleCodexEvent e a i (ExecApprovalRequest command cwd) s =
     (s, [OnApprovalRequest (ExecApproval i command cwd)])"
| "handleCodexEvent e a i (PatchApprovalRequest patch files) s =
     (s, [OnApprovalRequest (PatchApproval i patch files)])"
| "handleCodexEvent e a i (ApplyPatchApprovalRequest patch files) s =
     (s, [OnApprovalRequest (PatchApproval i patch files)])"
| "handleCodexEvent e a i (ExecCommandBegin callId command cwd) s =
     (let headerLines = (if cwd \<noteq> [] then [''cwd: '' @ cwd] else []) @ [''$ '' @ join '' '' command];
          mid = sessionId e @ ''-exec-'' @ callId @ ''-'' @ showNat (now a);
          content = join newline headerLines @ newline
      in (s\<lparr>execStreams := (execStreams s)(callId \<mapsto> \<lparr>messageId = mid, buffer = content\<rparr>)\<rparr>,
          addMessageToStore e a
            \<lparr> cm_id = mid, cm_type = TypeSystem, cm_content = content,
              cm_timestamp = stamp a, cm_isStreaming = Some True \<rparr>
          @ [SetSessionLoading (sessionId e) True]))"
| "handleCodexEvent e a i (ExecCommandOutputDelta callId chunk) s =
     (case execStreams s callId of
        Some st \<Rightarrow>
          (let text = (case textDecode e chunk of
                         Some t \<Rightarrow> t
                       | None \<Rightarrow> join '','' (map showNat chunk));
               next = buffer st @ text
           in (s\<lparr>execStreams := (execStreams s)(callId \<mapsto> st\<lparr>buffer := next\<rparr>)\<rparr>,
               [UpdateMessage (sessionId e) (messageId st)
                  \<lparr> upd_content = Some next, upd_isStreaming = None \<rparr>]))
      | None \<Rightarrow> (s, []))"
| "handleCodexEvent e a i (ExecCommandEnd callId exitCode) s =
     (case execStreams s callId of
        Some st \<Rightarrow>
          (let next = buffer st @ newline @ ''exit '' @ showInt exitCode
           in (s\<lparr>execStreams := (execStreams s)(callId := None)\<rparr>,
               [UpdateMessage (sessionId e) (messageId st)
                  \<lparr> upd_content = Some next, upd_isStreaming = Some False \<rparr>,
                SetSessionLoading (sessionId e) False]))
      | None \<Rightarrow> (s, [SetSessionLoading (sessionId e) False]))"
| "handleCodexEvent e a i PatchApplyBegin s =
     (s, addMessageToStore e a
           \<lparr> cm_id = sessionId e @ ''-patch-begin-'' @ showNat (now a), cm_type = TypeSystem,
             cm_content = ''Applying patch'' @ [CHR 0xE2, CHR 0x80, CHR 0xA6],
             cm_timestamp = stamp a, cm_isStreaming = None \<rparr>
         @ [SetSessionLoading (sessionId e) True])"
| "handleCodexEvent e a i (PatchApplyEnd success) s =
     (s, addMessageToStore e a
           \<lparr> cm_id = sessionId e @ ''-patch-end-'' @ showNat (now a), cm_type = TypeSystem,
             cm_content = ''Patch apply '' @ (if success then ''ok'' else ''failed''),
             cm_timestamp = stamp a, cm_isStreaming = None \<rparr>
         @ [SetSessionLoading (sessionId e) False])"
| "handleCodexEvent e a i (Error message) s =
     (s, addMessageToStore e a
           \<lparr> cm_id = sessionId e @ ''-error-'' @ showNat (now a) @ ''-'' @ rnd a, cm_type = TypeSystem,
             cm_content = ''Error: '' @ message,
             cm_timestamp = stamp a, cm_isStreaming = None \<rparr>
         @ [SetSessionLoading (sessionId e) False])"
| "handleCodexEvent e a i ShutdownComplete s =
     (s\<lparr>currentStreamingMessageId := None\<rparr>, [ControllerClearAll])"
| "handleCodexEvent e a i (BackgroundEvent message) s = (s, [])"
| "handleCodexEvent e a i (Unhandled tag) s = (s, [])"

subsection \<open>Running the hook\<close>

text \<open>
  What can happen to a mounted hook: an event arrives, read together with its
  surroundings, or the platform runs one of the registered frame callbacks. A callback
  runs once, and only when it is registered.
\<close>

datatype step = Event ambient codexEvent | Frame which string

definition doStep :: "env \<Rightarrow> step \<Rightarrow> state \<Rightarrow> state \<times> intent list" where
  "doStep e x s =
     (case x of
        Event a ev \<Rightarrow> handleCodexEvent e a (ev_id ev) (ev_msg ev) s
      | Frame w i \<Rightarrow>
          (if (w, i) \<in> set (rafQueue s)
           then flushCallback e w i (s\<lparr>rafQueue := remove1 (w, i) (rafQueue s)\<rparr>)
           else (s, [])))"

fun run :: "env \<Rightarrow> step list \<Rightarrow> state \<Rightarrow> state \<times> intent list" where
  "run e [] s = (s, [])"
| "run e (x # xs) s =
     (let (s1, out1) = doStep e x s; (s2, out2) = run e xs s1 in (s2, out1 @ out2))"

subsection \<open>Reading the calls of an event\<close>

text \<open>The messages added, the updates by id and the loading flags among a list of calls.\<close>

fun addedMessages :: "intent list \<Rightarrow> conversationMessage list" where
  "addedMessages [] = []"
| "addedMessages (AddMessage sid m # xs) = m # addedMessages xs"
| "addedMessages (x # xs) = addedMessages xs"

fun updates :: "intent list \<Rightarrow> (string \<times> partialFields) list" where
  "updates [] = []"
| "updates (UpdateMessage sid mid p # xs) = (mid, p) # updates xs"
| "updates (x # xs) = updates xs"

fun loadingCalls :: "intent list \<Rightarrow> bool list" where
  "loadingCalls [] = []"
| "loadingCalls (SetSessionLoading sid b # xs) = b # loadingCalls xs"
| "loadingCalls (x # xs) = loadingCalls xs"

subsection \<open>The transcript store\<close>

text \<open>
  Modelled from the spec: the conversation store (\<open>stores/ConversationStore\<close>) is not among
  the sources. The spec gives its interface: \<open>appendEntry\<close> adds an entry at the end of the
  session's transcript, \<open>updateEntry\<close> writes the given fields of the entry with that id,
  last write wins. The transcript of the one session of the hook is a list of entries; an
  entry starts with the four fields \<open>addMessageToStore\<close> passes and no streaming flag.
\<close>

record entry =
  ent_id :: string
  ent_role :: role
  ent_content :: string
  ent_timestamp :: nat
  ent_isStreaming :: "bool option"

definition updateEntry :: "partialFields \<Rightarrow> entry \<Rightarrow> entry" where
  "updateEntry p en =
     en\<lparr> ent_content := (case upd_content p of Some c \<Rightarrow> c | None \<Rightarrow> ent_content en),
         ent_isStreaming := (case upd_isStreaming p of Some b \<Rightarrow> Some b | None \<Rightarrow> ent_isStreaming en) \<rparr>"

fun applyIntent :: "entry list \<Rightarrow> intent \<Rightarrow> entry list" where
  "applyIntent t (AddMessage sid m) =
     t @ [\<lparr> ent_id = msg_id m, ent_role = msg_role m, ent_content = msg_content m,
            ent_timestamp = msg_timestamp m, ent_isStreaming = None \<rparr>]"
| "applyIntent t (UpdateMessage sid mid p) =
     map (\<lambda>en. if ent_id en = mid then updateEntry p en else en) t"
| "applyIntent t x = t"

definition transcript :: "intent list \<Rightarrow> entry list" where
  "transcript out = foldl applyIntent [] out"

subsection \<open>A sample platform\<close>

text \<open>
  A decoder for the examples: bytes below 128 decode to the characters they encode, and
  any other chunk makes \<open>decode\<close> throw.
\<close>

definition sampleDecode :: "nat list \<Rightarrow> string option" where
  "sampleDecode bs = (if list_all (\<lambda>b. b < 128) bs then Some (map char_of bs) else None)"

definition sampleEnv :: env where
  "sampleEnv = \<lparr> sessionId = ''s'', textDecode = sampleDecode \<rparr>"

definition sampleAmbient :: "nat \<Rightarrow> ambient" where
  "sampleAmbient t = \<lparr> now = t, stamp = t, rnd = ''k3'', rafHandle = t, conversationExists = True \<rparr>"

definition ev :: "string \<Rightarrow> msg \<Rightarrow> codexEvent" where
  "ev i m = \<lparr> ev_id = i, ev_msg = m \<rparr>"

subsection \<open>Diff entries\<close>

text \<open>The content of the transcript entry a \<open>turn_diff\<close> event adds.\<close>

definition diffContent :: "string \<Rightarrow> string" where
  "diffContent raw = ''```diff'' @ newline @ raw @ newline @ ''```''"

subsection \<open>Delta streams and pending flushes\<close>

text \<open>
  The delta event of a channel: \<open>agent_message_delta\<close> for the agent channel, and for the
  reasoning channel either \<open>agent_reasoning_delta\<close> or, when \<open>raw\<close> is set,
  \<open>agent_reasoning_raw_content_delta\<close>.
\<close>

fun deltaMsg :: "which \<Rightarrow> bool \<Rightarrow> string \<Rightarrow> msg" where
  "deltaMsg Agent raw d = AgentMessageDelta d"
| "deltaMsg Reasoning False d = AgentReasoningDelta d"
| "deltaMsg Reasoning True d = AgentReasoningRawContentDelta d"

text \<open>A run of delta events of one stream, each with its surroundings, and their text.\<close>

definition deltaSteps :: "which \<Rightarrow> string \<Rightarrow> (ambient \<times> bool \<times> string) list \<Rightarrow> step list" where
  "deltaSteps w i ds = map (\<lambda>(a, raw, d). Event a (ev i (deltaMsg w raw d))) ds"

definition deltaText :: "(ambient \<times> bool \<times> string) list \<Rightarrow> string" where
  "deltaText ds = concat (map (\<lambda>(a, raw, d). d) ds)"

definition nonEmptyDeltas :: "(ambient \<times> bool \<times> string) list \<Rightarrow> bool" where
  "nonEmptyDeltas ds = list_all (\<lambda>(a, raw, d). d \<noteq> []) ds"

text \<open>The buffer of a stream, empty when the stream has no entry.\<close>

definition bufferOf :: "which \<Rightarrow> string \<Rightarrow> state \<Rightarrow> string" where
  "bufferOf w i s = (case streamsOf w s i of None \<Rightarrow> [] | Some st \<Rightarrow> buffer st)"

text \<open>
  The flags and the platform agree: the registered frame callbacks are those of the
  flagged ids, each registered once.
\<close>

definition flushInv :: "state \<Rightarrow> bool" where
  "flushInv s =
     (distinct (rafQueue s)
      \<and> set (rafQueue s) = Pair Agent ` dom (agentFlush s) \<union> Pair Reasoning ` dom (reasoningFlush s))"

section \<open>Facts about the sample platform\<close>

lemma showNat_digit: "n < 10 \<Longrightarrow> showNat n = [digitChar n]"
  by (simp add: showNat.simps)

lemma sampleDecode_file1: "sampleDecode [102, 105, 108, 101, 49, 10] = Some (''file1'' @ newline)"
  by code_simp

lemma sampleDecode_file2: "sampleDecode [102, 105, 108, 101, 50, 10] = Some (''file2'' @ newline)"
  by code_simp

lemma sampleDecode_high: "sampleDecode [255, 254] = None"
  by (simp add: sampleDecode_def)

lemma showNat_255: "showNat 255 = ''255''"
  by (simp add: showNat.simps digitChar_def)

lemma showNat_254: "showNat 254 = ''254''"
  by (simp add: showNat.simps digitChar_def)

section \<open>Reasoning finals and the loading indicator\<close>

text \<open>
  Claim C10. A reasoning-final event (\<open>agent_reasoning\<close> or \<open>agent_reasoning_raw_content\<close>)
  sets the session loading indicator exactly once, to false, whatever the refs hold:
  whether or not a stream entry exists for the id, and whatever the text is.
\<close>

theorem reasoning_final_loading_false:
  "loadingCalls (snd (handleCodexEvent e a i (AgentReasoning text) s)) = [False]
   \<and> loadingCalls (snd (handleCodexEvent e a i (AgentReasoningRawContent text) s)) = [False]
   \<and> last (snd (handleCodexEvent e a i (AgentReasoning text) s)) = SetSessionLoading (sessionId e) False
   \<and> last (snd (handleCodexEvent e a i (AgentReasoningRawContent text) s)) = SetSessionLoading (sessionId e) False"
  by (simp add: addMessageToStore_def split: option.splits)

section \<open>Exec output chunks\<close>

text \<open>
  Claim C9. An exec output delta for a call id that has a stream entry appends the decoded
  chunk to the buffer; when the decoder throws, it appends the chunk's numbers joined by
  commas instead. Either way the event ends normally with one update of the entry's
  content to the new buffer.
\<close>

theorem exec_output_delta_decode:
  assumes "execStreams s callId = Some st"
  shows "(textDecode e chunk = Some t \<longrightarrow>
            handleCodexEvent e a i (ExecCommandOutputDelta callId chunk) s =
              (s\<lparr>execStreams := (execStreams s)(callId \<mapsto> st\<lparr>buffer := buffer st @ t\<rparr>)\<rparr>,
               [UpdateMessage (sessionId e) (messageId st)
                  \<lparr>upd_content = Some (buffer st @ t), upd_isStreaming = None\<rparr>]))
       \<and> (textDecode e chunk = None \<longrightarrow>
            handleCodexEvent e a i (ExecCommandOutputDelta callId chunk) s =
              (s\<lparr>execStreams :=
                   (execStreams s)(callId \<mapsto> st\<lparr>buffer := buffer st @ join '','' (map showNat chunk)\<rparr>)\<rparr>,
               [UpdateMessage (sessionId e) (messageId st)
                  \<lparr>upd_content = Some (buffer st @ join '','' (map showNat chunk)),
                    upd_isStreaming = None\<rparr>]))"
  using assms by (simp add: Let_def)

theorem exec_output_delta_decode_witness:
  "execStreams (initialState\<lparr>execStreams := [''c1'' \<mapsto> \<lparr>messageId = ''m1'', buffer = ''$ ls''\<rparr>]\<rparr>) ''c1''
     = Some \<lparr>messageId = ''m1'', buffer = ''$ ls''\<rparr>
   \<and> textDecode sampleEnv [102, 105, 108, 101, 49, 10] = Some (''file1'' @ newline)
   \<and> snd (handleCodexEvent sampleEnv (sampleAmbient 5) ''e1''
        (ExecCommandOutputDelta ''c1'' [102, 105, 108, 101, 49, 10])
        (initialState\<lparr>execStreams := [''c1'' \<mapsto> \<lparr>messageId = ''m1'', buffer = ''$ ls''\<rparr>]\<rparr>))
     = [UpdateMessage ''s'' ''m1'' \<lparr>upd_content = Some (''$ lsfile1'' @ newline), upd_isStreaming = None\<rparr>]
   \<and> textDecode sampleEnv [255, 254] = None
   \<and> snd (handleCodexEvent sampleEnv (sampleAmbient 5) ''e1''
        (ExecCommandOutputDelta ''c1'' [255, 254])
        (initialState\<lparr>execStreams := [''c1'' \<mapsto> \<lparr>messageId = ''m1'', buffer = ''$ ls''\<rparr>]\<rparr>))
     = [UpdateMessage ''s'' ''m1'' \<lparr>upd_content = Some ''$ ls255,254'', upd_isStreaming = None\<rparr>]"
proof -
  let ?s = "initialState\<lparr>execStreams := [''c1'' \<mapsto> \<lparr>messageId = ''m1'', buffer = ''$ ls''\<rparr>]\<rparr>"
  have h: "execStreams ?s ''c1'' = Some \<lparr>messageId = ''m1'', buffer = ''$ ls''\<rparr>"
    by simp
  have d1: "textDecode sampleEnv [102, 105, 108, 101, 49, 10] = Some (''file1'' @ newline)"
    by (simp add: sampleEnv_def sampleDecode_file1)
  have d2: "textDecode sampleEnv [255, 254] = None"
    by (simp add: sampleEnv_def sampleDecode_high)
  show ?thesis
    using h d1 d2
      exec_output_delta_decode [OF h, of sampleEnv "[102, 105, 108, 101, 49, 10]" "''file1'' @ newline"
        "sampleAmbient 5" "''e1''"]
      exec_output_delta_decode [OF h, of sampleEnv "[255, 254]" "[]" "sampleAmbient 5" "''e1''"]
    by (simp add: sampleEnv_def showNat_255 showNat_254)
qed

section \<open>Agent messages\<close>

text \<open>
  Claim C4, as the spec states it: for a stream id without an entry, an agent message
  emits one transcript entry with the full text, the empty text included. The handler
  leaves at once on an empty text, so nothing is emitted then.
\<close>

theorem agent_message_empty_counterexample:
  "agentStreams initialState ''s1'' = None
   \<and> addedMessages (snd (handleCodexEvent sampleEnv (sampleAmbient 5) ''s1'' (AgentMessage []) initialState)) = []"
  by (simp add: initialState_def)

text \<open>
  Claim C4, amended: for a stream id without an entry and a non-empty full text, an agent
  message emits exactly one new transcript entry, with that text as content, and registers
  the stream entry for it; on the empty text it emits nothing and changes nothing.
\<close>

theorem agent_message_first_emit:
  assumes "agentStreams s i = None"
  shows "(text \<noteq> [] \<longrightarrow>
            map msg_content (addedMessages (snd (handleCodexEvent e a i (AgentMessage text) s))) = [text]
            \<and> updates (snd (handleCodexEvent e a i (AgentMessage text) s)) = []
            \<and> map_option buffer (agentStreams (fst (handleCodexEvent e a i (AgentMessage text) s)) i) = Some text)
       \<and> (text = [] \<longrightarrow> handleCodexEvent e a i (AgentMessage text) s = (s, []))"
  using assms by (simp add: addMessageToStore_def Let_def)

theorem agent_message_first_emit_witness:
  "agentStreams initialState ''s1'' = None
   \<and> ''hello'' \<noteq> []
   \<and> map msg_content (addedMessages (snd (handleCodexEvent sampleEnv (sampleAmbient 5) ''s1'' (AgentMessage ''hello'') initialState)))
       = [''hello'']
   \<and> handleCodexEvent sampleEnv (sampleAmbient 5) ''s1'' (AgentMessage []) initialState = (initialState, [])"
proof -
  have h: "agentStreams initialState ''s1'' = None"
    by (simp add: initialState_def)
  show ?thesis
    using h agent_message_first_emit [OF h, of "''hello''" sampleEnv "sampleAmbient 5"]
      agent_message_first_emit [OF h, of "[]" sampleEnv "sampleAmbient 5"]
    by simp
qed

text \<open>
  Claim C3, as the spec states it: two agent messages in a row with the same id and text
  give one transcript append, for every text. With the empty text there is none.
\<close>

theorem agent_message_resend_counterexample:
  "addedMessages
     (snd (run sampleEnv
        [Event (sampleAmbient 5) (ev ''s1'' (AgentMessage [])),
         Event (sampleAmbient 6) (ev ''s1'' (AgentMessage []))] initialState)) = []"
  by (simp add: doStep_def ev_def)

text \<open>
  Claim C3, amended: for every stream id and every non-empty text, two agent messages in
  a row with that id and text produce exactly one transcript append, with the text as
  content (not two, not the text doubled), unless the id's stream entry held the text
  before the first of them, in which case they produce none; and the second event makes
  no call and leaves the refs as they are.
\<close>

theorem agent_message_resend:
  assumes "text \<noteq> []"
  shows "map msg_content (addedMessages (snd (run e
             [Event a1 (ev i (AgentMessage text)), Event a2 (ev i (AgentMessage text))] s)))
           = (if map_option buffer (agentStreams s i) = Some text then [] else [text])
       \<and> handleCodexEvent e a2 i (AgentMessage text) (fst (handleCodexEvent e a1 i (AgentMessage text) s))
           = (fst (handleCodexEvent e a1 i (AgentMessage text) s), [])"
  using assms
  by (cases "agentStreams s i") (simp_all add: addMessageToStore_def Let_def doStep_def ev_def)

theorem agent_message_resend_witness:
  "''hello'' \<noteq> []
   \<and> map msg_content (addedMessages (snd (run sampleEnv
        [Event (sampleAmbient 5) (ev ''s1'' (AgentMessage ''hello'')),
         Event (sampleAmbient 6) (ev ''s1'' (AgentMessage ''hello''))] initialState))) = [''hello'']"
proof -
  have h1: "''hello'' \<noteq> []" by simp
  have h2: "map_option buffer (agentStreams initialState ''s1'') \<noteq> Some ''hello''"
    by (simp add: initialState_def)
  show ?thesis
    using h1 h2 agent_message_resend [OF h1, of sampleEnv "sampleAmbient 5" "''s1''" "sampleAmbient 6" initialState]
    by simp
qed

section \<open>Exec output before exec begin\<close>

text \<open>
  Claim C6, as the spec states it: the first exec output delta of a call id without a
  stream entry creates the entry and appends a streaming transcript entry. The handler
  does nothing when the call id has no entry.
\<close>

theorem exec_output_delta_no_entry_counterexample:
  "execStreams initialState ''c1'' = None
   \<and> handleCodexEvent sampleEnv (sampleAmbient 5) ''e1''
       (ExecCommandOutputDelta ''c1'' [102, 105, 108, 101, 49, 10]) initialState = (initialState, [])"
  by (simp add: initialState_def)

text \<open>
  Claim C6, amended: an exec output delta for a call id without a stream entry creates no
  entry, makes no call and leaves the refs unchanged. The exec stream entry is created by
  \<open>exec_command_begin\<close>, which appends the transcript entry with the header as content and
  starts the buffer with that header; a delta for a call id that has an entry appends the
  decoded chunk to the buffer and writes the buffer at once, without scheduling a flush.
\<close>

theorem exec_output_delta_needs_begin:
  "(execStreams s callId = None \<longrightarrow>
      handleCodexEvent e a i (ExecCommandOutputDelta callId chunk) s = (s, []))
   \<and> (\<exists>st. execStreams (fst (handleCodexEvent e a i (ExecCommandBegin callId command cwd) s)) callId = Some st
        \<and> map (\<lambda>m. (msg_id m, msg_content m))
             (addedMessages (snd (handleCodexEvent e a i (ExecCommandBegin callId command cwd) s)))
           = [(messageId st, buffer st)])
   \<and> (execStreams s callId = Some st' \<and> textDecode e chunk = Some t \<longrightarrow>
        map_option buffer (execStreams (fst (handleCodexEvent e a i (ExecCommandOutputDelta callId chunk) s)) callId)
          = Some (buffer st' @ t)
        \<and> updates (snd (handleCodexEvent e a i (ExecCommandOutputDelta callId chunk) s))
          = [(messageId st', \<lparr>upd_content = Some (buffer st' @ t), upd_isStreaming = None\<rparr>)]
        \<and> rafQueue (fst (handleCodexEvent e a i (ExecCommandOutputDelta callId chunk) s)) = rafQueue s)"
  by (simp add: addMessageToStore_def Let_def)

theorem exec_output_delta_needs_begin_witness:
  "execStreams initialState ''c1'' = None
   \<and> handleCodexEvent sampleEnv (sampleAmbient 5) ''e1''
       (ExecCommandOutputDelta ''c1'' [102, 105, 108, 101, 50, 10]) initialState = (initialState, [])
   \<and> execStreams (initialState\<lparr>execStreams := [''c1'' \<mapsto> \<lparr>messageId = ''m1'', buffer = ''$ ls''\<rparr>]\<rparr>) ''c1''
       = Some \<lparr>messageId = ''m1'', buffer = ''$ ls''\<rparr>
   \<and> textDecode sampleEnv [102, 105, 108, 101, 50, 10] = Some (''file2'' @ newline)
   \<and> updates (snd (handleCodexEvent sampleEnv (sampleAmbient 5) ''e1''
        (ExecCommandOutputDelta ''c1'' [102, 105, 108, 101, 50, 10])
        (initialState\<lparr>execStreams := [''c1'' \<mapsto> \<lparr>messageId = ''m1'', buffer = ''$ ls''\<rparr>]\<rparr>)))
       = [(''m1'', \<lparr>upd_content = Some (''$ lsfile2'' @ newline), upd_isStreaming = None\<rparr>)]"
proof -
  let ?s = "initialState\<lparr>execStreams := [''c1'' \<mapsto> \<lparr>messageId = ''m1'', buffer = ''$ ls''\<rparr>]\<rparr>"
  have h0: "execStreams initialState ''c1'' = None"
    by (simp add: initialState_def)
  have h1: "execStreams ?s ''c1'' = Some \<lparr>messageId = ''m1'', buffer = ''$ ls''\<rparr>"
    by simp
  have d: "textDecode sampleEnv [102, 105, 108, 101, 50, 10] = Some (''file2'' @ newline)"
    by (simp add: sampleEnv_def sampleDecode_file2)
  show ?thesis
    using h0 h1 d
      exec_output_delta_needs_begin [of initialState "''c1''" sampleEnv "sampleAmbient 5" "''e1''"
        "[102, 105, 108, 101, 50, 10]" "[]" "[]" "\<lparr>messageId = [], buffer = []\<rparr>" "[]"]
      exec_output_delta_needs_begin [of ?s "''c1''" sampleEnv "sampleAmbient 5" "''e1''"
        "[102, 105, 108, 101, 50, 10]" "[]" "[]" "\<lparr>messageId = ''m1'', buffer = ''$ ls''\<rparr>" "''file2'' @ newline"]
    by simp
qed

section \<open>The exec lifecycle\<close>

lemma showInt_0: "showInt 0 = ''0''"
  by (simp add: showInt_def showNat.simps digitChar_def)

text \<open>
  Claim C7. Begin of call \<open>c1\<close> with command \<open>ls -la\<close> in \<open>/tmp\<close>, two output deltas with the
  bytes of \<open>file1\<close> and \<open>file2\<close> (each with its newline), then end with exit code 0: from
  any refs and at any times, one message is added, the transcript built from the calls
  has that one entry, its content is header, output and exit line, its streaming flag is
  false, and the exec stream entry is gone.
\<close>

theorem exec_lifecycle:
  assumes "textDecode e [102, 105, 108, 101, 49, 10] = Some (''file1'' @ newline)"
    and "textDecode e [102, 105, 108, 101, 50, 10] = Some (''file2'' @ newline)"
  shows "execStreams (fst (run e
            [Event a1 (ev i1 (ExecCommandBegin ''c1'' [''ls'', ''-la''] ''/tmp'')),
             Event a2 (ev i2 (ExecCommandOutputDelta ''c1'' [102, 105, 108, 101, 49, 10])),
             Event a3 (ev i3 (ExecCommandOutputDelta ''c1'' [102, 105, 108, 101, 50, 10])),
             Event a4 (ev i4 (ExecCommandEnd ''c1'' 0))] s)) ''c1'' = None
       \<and> transcript (snd (run e
            [Event a1 (ev i1 (ExecCommandBegin ''c1'' [''ls'', ''-la''] ''/tmp'')),
             Event a2 (ev i2 (ExecCommandOutputDelta ''c1'' [102, 105, 108, 101, 49, 10])),
             Event a3 (ev i3 (ExecCommandOutputDelta ''c1'' [102, 105, 108, 101, 50, 10])),
             Event a4 (ev i4 (ExecCommandEnd ''c1'' 0))] s))
          = [\<lparr> ent_id = sessionId e @ ''-exec-c1-'' @ showNat (now a1), ent_role = RoleSystem,
               ent_content = ''cwd: /tmp'' @ newline @ ''$ ls -la'' @ newline
                  @ ''file1'' @ newline @ ''file2'' @ newline @ newline @ ''exit 0'',
               ent_timestamp = stamp a1, ent_isStreaming = Some False \<rparr>]
       \<and> length (addedMessages (snd (run e
            [Event a1 (ev i1 (ExecCommandBegin ''c1'' [''ls'', ''-la''] ''/tmp'')),
             Event a2 (ev i2 (ExecCommandOutputDelta ''c1'' [102, 105, 108, 101, 49, 10])),
             Event a3 (ev i3 (ExecCommandOutputDelta ''c1'' [102, 105, 108, 101, 50, 10])),
             Event a4 (ev i4 (ExecCommandEnd ''c1'' 0))] s))) = 1"
  using assms
  by (simp add: doStep_def ev_def Let_def addMessageToStore_def transcript_def updateEntry_def
      roleOf_def showInt_0)

theorem exec_lifecycle_witness:
  "textDecode sampleEnv [102, 105, 108, 101, 49, 10] = Some (''file1'' @ newline)
   \<and> textDecode sampleEnv [102, 105, 108, 101, 50, 10] = Some (''file2'' @ newline)
   \<and> transcript (snd (run sampleEnv
            [Event (sampleAmbient 1) (ev ''e1'' (ExecCommandBegin ''c1'' [''ls'', ''-la''] ''/tmp'')),
             Event (sampleAmbient 2) (ev ''e1'' (ExecCommandOutputDelta ''c1'' [102, 105, 108, 101, 49, 10])),
             Event (sampleAmbient 3) (ev ''e1'' (ExecCommandOutputDelta ''c1'' [102, 105, 108, 101, 50, 10])),
             Event (sampleAmbient 4) (ev ''e1'' (ExecCommandEnd ''c1'' 0))] initialState))
          = [\<lparr> ent_id = ''s-exec-c1-1'', ent_role = RoleSystem,
               ent_content = ''cwd: /tmp'' @ newline @ ''$ ls -la'' @ newline
                  @ ''file1'' @ newline @ ''file2'' @ newline @ newline @ ''exit 0'',
               ent_timestamp = 1, ent_isStreaming = Some False \<rparr>]"
proof -
  have d1: "textDecode sampleEnv [102, 105, 108, 101, 49, 10] = Some (''file1'' @ newline)"
    by (simp add: sampleEnv_def sampleDecode_file1)
  have d2: "textDecode sampleEnv [102, 105, 108, 101, 50, 10] = Some (''file2'' @ newline)"
    by (simp add: sampleEnv_def sampleDecode_file2)
  have n: "showNat (now (sampleAmbient 1)) = ''1''"
    by (simp add: sampleAmbient_def showNat.simps digitChar_def)
  show ?thesis
    using d1 d2 n
      exec_lifecycle [OF d1 d2, of "sampleAmbient 1" "''e1''" "sampleAmbient 2" "''e1''"
        "sampleAmbient 3" "''e1''" "sampleAmbient 4" "''e1''" initialState]
    by (simp add: sampleEnv_def sampleAmbient_def)
qed

section \<open>Diff dedup\<close>

text \<open>
  Claim C8 says that a diff \<open>D\<close> is shown once within a turn, suppressed when repeated in
  that turn, and shown again after a turn boundary, turn start or turn end. The handler
  does the first two. It clears \<open>shownDiffs\<close> in the cases \<open>turn_started\<close>, \<open>turn_complete\<close>
  and \<open>turn_aborted\<close>, and not in \<open>task_started\<close> and \<open>task_complete\<close>: a diff shown in a
  turn that task started opened is still suppressed after task complete and the next task
  started, and the whole run adds one diff entry. With turn complete and turn started in
  their place the same diff is shown again.
\<close>

theorem diff_suppressed_after_task_boundary:
  "map msg_content (addedMessages (snd (run sampleEnv
       [Event (sampleAmbient 1) (ev ''t1'' TaskStarted),
        Event (sampleAmbient 2) (ev ''t1'' (TurnDiff ''d1'')),
        Event (sampleAmbient 3) (ev ''t1'' (TurnDiff ''d1'')),
        Event (sampleAmbient 4) (ev ''t1'' TaskComplete),
        Event (sampleAmbient 5) (ev ''t2'' TaskStarted),
        Event (sampleAmbient 6) (ev ''t2'' (TurnDiff ''d1''))] initialState)))
     = [diffContent ''d1'']
   \<and> doStep sampleEnv (Event (sampleAmbient 6) (ev ''t2'' (TurnDiff ''d1'')))
       (fst (run sampleEnv
         [Event (sampleAmbient 1) (ev ''t1'' TaskStarted),
          Event (sampleAmbient 2) (ev ''t1'' (TurnDiff ''d1'')),
          Event (sampleAmbient 3) (ev ''t1'' (TurnDiff ''d1'')),
          Event (sampleAmbient 4) (ev ''t1'' TaskComplete),
          Event (sampleAmbient 5) (ev ''t2'' TaskStarted)] initialState))
     = (fst (run sampleEnv
         [Event (sampleAmbient 1) (ev ''t1'' TaskStarted),
          Event (sampleAmbient 2) (ev ''t1'' (TurnDiff ''d1'')),
          Event (sampleAmbient 3) (ev ''t1'' (TurnDiff ''d1'')),
          Event (sampleAmbient 4) (ev ''t1'' TaskComplete),
          Event (sampleAmbient 5) (ev ''t2'' TaskStarted)] initialState), [])
   \<and> shownDiffs (fst (run sampleEnv
         [Event (sampleAmbient 1) (ev ''t1'' TaskStarted),
          Event (sampleAmbient 2) (ev ''t1'' (TurnDiff ''d1'')),
          Event (sampleAmbient 3) (ev ''t1'' (TurnDiff ''d1'')),
          Event (sampleAmbient 4) (ev ''t1'' TaskComplete),
          Event (sampleAmbient 5) (ev ''t2'' TaskStarted)] initialState)) = {''d1''}
   \<and> map msg_content (addedMessages (snd (run sampleEnv
       [Event (sampleAmbient 1) (ev ''t1'' TurnStarted),
        Event (sampleAmbient 2) (ev ''t1'' (TurnDiff ''d1'')),
        Event (sampleAmbient 3) (ev ''t1'' (TurnDiff ''d1'')),
        Event (sampleAmbient 4) (ev ''t1'' TurnComplete),
        Event (sampleAmbient 5) (ev ''t2'' TurnStarted),
        Event (sampleAmbient 6) (ev ''t2'' (TurnDiff ''d1''))] initialState)))
     = [diffContent ''d1'', diffContent ''d1'']"
  by (simp add: doStep_def ev_def sampleEnv_def sampleAmbient_def initialState_def Let_def
      addMessageToStore_def truthy_def diffContent_def)

section \<open>Turn boundaries and the stream maps\<close>

lemma showNat_5: "showNat 5 = ''5''"
  by (simp add: showNat.simps digitChar_def)

lemma showNat_6: "showNat 6 = ''6''"
  by (simp add: showNat.simps digitChar_def)

lemma showNat_7: "showNat 7 = ''7''"
  by (simp add: showNat.simps digitChar_def)

text \<open>
  Claim C1 says that nothing a turn created in the stream maps, the flush maps or the diff
  set is left after the turn ends and the next one starts. The handler clears the legacy
  stream controller and \<open>shownDiffs\<close> there, and none of the maps: after an agent delta, a
  reasoning delta and an exec begin, then turn complete and turn started, the three stream
  entries, both flush flags and both registered frame callbacks are still there; and a
  diff shown before task complete and task started is still a member of the set.
\<close>

theorem turn_boundary_keeps_streams:
  "agentStreams (fst (run sampleEnv
       [Event (sampleAmbient 5) (ev ''s1'' (AgentMessageDelta ''a'')),
        Event (sampleAmbient 6) (ev ''s1'' (AgentReasoningDelta ''b'')),
        Event (sampleAmbient 7) (ev ''s1'' (ExecCommandBegin ''c1'' [''ls''] [])),
        Event (sampleAmbient 8) (ev ''s1'' TurnComplete),
        Event (sampleAmbient 9) (ev ''s2'' TurnStarted)] initialState)) ''s1''
     = Some \<lparr>messageId = ''s-agent-5'', buffer = ''a''\<rparr>
   \<and> reasoningStreams (fst (run sampleEnv
       [Event (sampleAmbient 5) (ev ''s1'' (AgentMessageDelta ''a'')),
        Event (sampleAmbient 6) (ev ''s1'' (AgentReasoningDelta ''b'')),
        Event (sampleAmbient 7) (ev ''s1'' (ExecCommandBegin ''c1'' [''ls''] [])),
        Event (sampleAmbient 8) (ev ''s1'' TurnComplete),
        Event (sampleAmbient 9) (ev ''s2'' TurnStarted)] initialState)) ''s1''
     = Some \<lparr>messageId = ''s-reasoning-6'', buffer = ''b''\<rparr>
   \<and> execStreams (fst (run sampleEnv
       [Event (sampleAmbient 5) (ev ''s1'' (AgentMessageDelta ''a'')),
        Event (sampleAmbient 6) (ev ''s1'' (AgentReasoningDelta ''b'')),
        Event (sampleAmbient 7) (ev ''s1'' (ExecCommandBegin ''c1'' [''ls''] [])),
        Event (sampleAmbient 8) (ev ''s1'' TurnComplete),
        Event (sampleAmbient 9) (ev ''s2'' TurnStarted)] initialState)) ''c1''
     = Some \<lparr>messageId = ''s-exec-c1-7'', buffer = ''$ ls'' @ newline\<rparr>
   \<and> agentFlush (fst (run sampleEnv
       [Event (sampleAmbient 5) (ev ''s1'' (AgentMessageDelta ''a'')),
        Event (sampleAmbient 6) (ev ''s1'' (AgentReasoningDelta ''b'')),
        Event (sampleAmbient 7) (ev ''s1'' (ExecCommandBegin ''c1'' [''ls''] [])),
        Event (sampleAmbient 8) (ev ''s1'' TurnComplete),
        Event (sampleAmbient 9) (ev ''s2'' TurnStarted)] initialState)) ''s1'' = Some 5
   \<and> reasoningFlush (fst (run sampleEnv
       [Event (sampleAmbient 5) (ev ''s1'' (AgentMessageDelta ''a'')),
        Event (sampleAmbient 6) (ev ''s1'' (AgentReasoningDelta ''b'')),
        Event (sampleAmbient 7) (ev ''s1'' (ExecCommandBegin ''c1'' [''ls''] [])),
        Event (sampleAmbient 8) (ev ''s1'' TurnComplete),
        Event (sampleAmbient 9) (ev ''s2'' TurnStarted)] initialState)) ''s1'' = Some 6
   \<and> rafQueue (fst (run sampleEnv
       [Event (sampleAmbient 5) (ev ''s1'' (AgentMessageDelta ''a'')),
        Event (sampleAmbient 6) (ev ''s1'' (AgentReasoningDelta ''b'')),
        Event (sampleAmbient 7) (ev ''s1'' (ExecCommandBegin ''c1'' [''ls''] [])),
        Event (sampleAmbient 8) (ev ''s1'' TurnComplete),
        Event (sampleAmbient 9) (ev ''s2'' TurnStarted)] initialState))
     = [(Agent, ''s1''), (Reasoning, ''s1'')]
   \<and> ''d1'' \<in> shownDiffs (fst (run sampleEnv
       [Event (sampleAmbient 5) (ev ''s1'' (TurnDiff ''d1'')),
        Event (sampleAmbient 6) (ev ''s1'' TaskComplete),
        Event (sampleAmbient 7) (ev ''s2'' TaskStarted)] initialState))"
  by (simp add: doStep_def ev_def sampleEnv_def sampleAmbient_def initialState_def Let_def
      scheduleFlush_def flagsOf_def setFlags_def addMessageToStore_def truthy_def
      showNat_5 showNat_6 showNat_7)

text \<open>
  Claim C2 says that a turn-end event arriving while a stream is open finalizes the stream,
  sets loading false and clears the diff set. With an agent delta stream open and a diff
  shown, task complete makes one call only, loading false: the stream entry stays, no
  update marks its transcript entry as no longer streaming, and the diff stays in the set.
  Turn complete clears the diff set and, like task complete, finalizes nothing.
\<close>

theorem turn_end_finalizes_nothing:
  "snd (doStep sampleEnv (Event (sampleAmbient 7) (ev ''s1'' TaskComplete))
      (fst (run sampleEnv
         [Event (sampleAmbient 5) (ev ''s1'' (AgentMessageDelta ''a'')),
          Event (sampleAmbient 6) (ev ''s1'' (TurnDiff ''d1''))] initialState)))
     = [SetSessionLoading ''s'' False]
   \<and> agentStreams (fst (run sampleEnv
         [Event (sampleAmbient 5) (ev ''s1'' (AgentMessageDelta ''a'')),
          Event (sampleAmbient 6) (ev ''s1'' (TurnDiff ''d1'')),
          Event (sampleAmbient 7) (ev ''s1'' TaskComplete)] initialState)) ''s1''
     = Some \<lparr>messageId = ''s-agent-5'', buffer = ''a''\<rparr>
   \<and> shownDiffs (fst (run sampleEnv
         [Event (sampleAmbient 5) (ev ''s1'' (AgentMessageDelta ''a'')),
          Event (sampleAmbient 6) (ev ''s1'' (TurnDiff ''d1'')),
          Event (sampleAmbient 7) (ev ''s1'' TaskComplete)] initialState)) = {''d1''}
   \<and> map ent_isStreaming (transcript (snd (run sampleEnv
         [Event (sampleAmbient 5) (ev ''s1'' (AgentMessageDelta ''a'')),
          Event (sampleAmbient 6) (ev ''s1'' (TurnDiff ''d1'')),
          Event (sampleAmbient 7) (ev ''s1'' TaskComplete),
          Frame Agent ''s1'']  initialState))) = [None, None]
   \<and> snd (doStep sampleEnv (Event (sampleAmbient 7) (ev ''s1'' TurnComplete))
      (fst (run sampleEnv
         [Event (sampleAmbient 5) (ev ''s1'' (AgentMessageDelta ''a'')),
          Event (sampleAmbient 6) (ev ''s1'' (TurnDiff ''d1''))] initialState)))
     = [SetSessionLoading ''s'' False]
   \<and> agentStreams (fst (run sampleEnv
         [Event (sampleAmbient 5) (ev ''s1'' (AgentMessageDelta ''a'')),
          Event (sampleAmbient 6) (ev ''s1'' (TurnDiff ''d1'')),
          Event (sampleAmbient 7) (ev ''s1'' TurnComplete)] initialState)) ''s1''
     = Some \<lparr>messageId = ''s-agent-5'', buffer = ''a''\<rparr>"
  by (simp add: doStep_def ev_def sampleEnv_def sampleAmbient_def initialState_def Let_def
      scheduleFlush_def flagsOf_def setFlags_def streamsOf_def flushCallback_def
      addMessageToStore_def truthy_def transcript_def updateEntry_def showNat_5 showNat_6)

section \<open>Delta coalescing\<close>

lemma flushInv_initialState: "flushInv initialState"
  by (simp add: flushInv_def initialState_def)

lemma flushInv_cong:
  "rafQueue s' = rafQueue s \<Longrightarrow> agentFlush s' = agentFlush s \<Longrightarrow> reasoningFlush s' = reasoningFlush s
   \<Longrightarrow> flushInv s' = flushInv s"
  by (simp add: flushInv_def)

lemma flushInv_mem: "flushInv s \<Longrightarrow> ((w, i) \<in> set (rafQueue s)) = (flagsOf w s i \<noteq> None)"
  by (cases w) (auto simp: flushInv_def flagsOf_def)

lemma scheduleFlush_inv: "flushInv s \<Longrightarrow> flushInv (scheduleFlush w i a s)"
  by (cases w) (auto simp: flushInv_def scheduleFlush_def flagsOf_def setFlags_def)

lemma scheduleFlush_fields:
  "agentStreams (scheduleFlush w i a s) = agentStreams s"
  "reasoningStreams (scheduleFlush w i a s) = reasoningStreams s"
  "execStreams (scheduleFlush w i a s) = execStreams s"
  "shownDiffs (scheduleFlush w i a s) = shownDiffs s"
  by (simp_all add: scheduleFlush_def setFlags_def)

lemma scheduleFlush_queue:
  "rafQueue (scheduleFlush w i a s) = (if flagsOf w s i = None then rafQueue s @ [(w, i)] else rafQueue s)"
  "flagsOf w (scheduleFlush w i a s) i \<noteq> None"
  by (auto simp: scheduleFlush_def setFlags_def flagsOf_def)

lemma handleCodexEvent_inv: "flushInv s \<Longrightarrow> flushInv (fst (handleCodexEvent e a i m s))"
proof (cases m)
  case (AgentMessageDelta d)
  then show "flushInv s \<Longrightarrow> ?thesis"
    by (auto simp: Let_def scheduleFlush_inv flushInv_cong [of "s\<lparr>agentStreams := x\<rparr>" s for x]
        split: option.splits)
next
  case (AgentReasoningDelta d)
  then show "flushInv s \<Longrightarrow> ?thesis"
    by (auto simp: Let_def scheduleFlush_inv flushInv_cong [of "s\<lparr>reasoningStreams := x\<rparr>" s for x]
        split: option.splits)
next
  case (AgentReasoningRawContentDelta d)
  then show "flushInv s \<Longrightarrow> ?thesis"
    by (auto simp: Let_def scheduleFlush_inv flushInv_cong [of "s\<lparr>reasoningStreams := x\<rparr>" s for x]
        split: option.splits)
qed (auto simp: flushInv_def Let_def split: option.splits)

lemma flushCallback_inv:
  "flushInv s \<Longrightarrow> (w, i) \<in> set (rafQueue s) \<Longrightarrow>
   flushInv (fst (flushCallback e w i (s\<lparr>rafQueue := remove1 (w, i) (rafQueue s)\<rparr>)))"
  by (cases w)
     (auto simp: flushInv_def flushCallback_def flagsOf_def setFlags_def streamsOf_def Let_def
           split: option.splits)

lemma doStep_inv: "flushInv s \<Longrightarrow> flushInv (fst (doStep e x s))"
proof (cases x)
  case (Event a c)
  then show "flushInv s \<Longrightarrow> ?thesis"
    by (simp add: doStep_def handleCodexEvent_inv)
next
  case (Frame w i)
  then show "flushInv s \<Longrightarrow> ?thesis"
    by (cases "(w, i) \<in> set (rafQueue s)") (simp_all add: doStep_def flushCallback_inv)
qed

lemma run_inv: "flushInv s \<Longrightarrow> flushInv (fst (run e xs s))"
proof (induction xs arbitrary: s)
  case Nil
  then show ?case by simp
next
  case (Cons x xs)
  then show ?case
    by (simp add: split_beta Let_def doStep_inv)
qed


lemma delta_step_streams:
  assumes "d \<noteq> []"
  shows "\<exists>mid. streamsOf w (fst (handleCodexEvent e a i (deltaMsg w raw d) s)) i
              = Some \<lparr>messageId = mid, buffer = bufferOf w i s @ d\<rparr>
            \<and> (\<forall>st. streamsOf w s i = Some st \<longrightarrow> mid = messageId st)"
  using assms
  by (cases w; cases raw; cases "streamsOf w s i")
     (auto simp: streamsOf_def bufferOf_def scheduleFlush_fields Let_def)

lemma delta_step_queue:
  assumes "d \<noteq> []"
  shows "rafQueue (fst (handleCodexEvent e a i (deltaMsg w raw d) s))
           = (if flagsOf w s i = None then rafQueue s @ [(w, i)] else rafQueue s)"
    and "flagsOf w (fst (handleCodexEvent e a i (deltaMsg w raw d) s)) i \<noteq> None"
    and "updates (snd (handleCodexEvent e a i (deltaMsg w raw d) s)) = []"
  using assms
  by (cases w; cases raw; cases "streamsOf w s i";
      auto simp: streamsOf_def scheduleFlush_queue flagsOf_def [of _ "s\<lparr>agentStreams := x\<rparr>" for x]
        flagsOf_def [of _ "s\<lparr>reasoningStreams := x\<rparr>" for x] flagsOf_def [of _ s]
        addMessageToStore_def Let_def)+


lemma count_list_distinct: "distinct xs \<Longrightarrow> x \<in> set xs \<Longrightarrow> count_list xs x = 1"
  by (induction xs) auto

lemma updates_append: "updates (xs @ ys) = updates xs @ updates ys"
  by (induction xs rule: updates.induct) simp_all

lemma run_append:
  "run e (xs @ ys) s = (fst (run e ys (fst (run e xs s))), snd (run e xs s) @ snd (run e ys (fst (run e xs s))))"
  by (induction xs arbitrary: s) (simp_all add: split_beta Let_def)

lemma run_single: "run e [x] s = doStep e x s"
  by (simp add: split_beta)

lemma run_deltaSteps_Cons:
  "run e (deltaSteps w i ((a, raw, d) # ds)) s =
     (fst (run e (deltaSteps w i ds) (fst (handleCodexEvent e a i (deltaMsg w raw d) s))),
      snd (handleCodexEvent e a i (deltaMsg w raw d) s)
        @ snd (run e (deltaSteps w i ds) (fst (handleCodexEvent e a i (deltaMsg w raw d) s))))"
  by (simp add: deltaSteps_def doStep_def ev_def split_beta Let_def)

lemma run_deltaSteps_Nil: "run e (deltaSteps w i []) s = (s, [])"
  by (simp add: deltaSteps_def)

lemma nonEmptyDeltas_Cons: "nonEmptyDeltas ((a, raw, d) # ds) = (d \<noteq> [] \<and> nonEmptyDeltas ds)"
  by (simp add: nonEmptyDeltas_def)

lemma deltaText_Cons: "deltaText ((a, raw, d) # ds) = d @ deltaText ds"
  by (simp add: deltaText_def)

lemma deltaText_Nil: "deltaText [] = []"
  by (simp add: deltaText_def)

lemma run_deltas_buffer:
  "nonEmptyDeltas ds \<Longrightarrow>
   bufferOf w i (fst (run e (deltaSteps w i ds) s)) = bufferOf w i s @ deltaText ds"
proof (induction ds arbitrary: s)
  case Nil
  then show ?case by (simp add: run_deltaSteps_Nil deltaText_Nil)
next
  case (Cons x ds)
  obtain a raw d where x: "x = (a, raw, d)" by (cases x)
  have d: "d \<noteq> []" and rest: "nonEmptyDeltas ds"
    using Cons.prems by (simp_all add: x nonEmptyDeltas_Cons)
  let ?s1 = "fst (handleCodexEvent e a i (deltaMsg w raw d) s)"
  have "bufferOf w i ?s1 = bufferOf w i s @ d"
    using delta_step_streams [OF d, of w e a i raw s] by (auto simp: bufferOf_def)
  then show ?case
    using Cons.IH [OF rest, of ?s1] by (simp add: x run_deltaSteps_Cons deltaText_Cons)
qed

lemma run_deltas_updates:
  "nonEmptyDeltas ds \<Longrightarrow> updates (snd (run e (deltaSteps w i ds) s)) = []"
proof (induction ds arbitrary: s)
  case Nil
  then show ?case by (simp add: run_deltaSteps_Nil)
next
  case (Cons x ds)
  obtain a raw d where x: "x = (a, raw, d)" by (cases x)
  have d: "d \<noteq> []" and rest: "nonEmptyDeltas ds"
    using Cons.prems by (simp_all add: x nonEmptyDeltas_Cons)
  show ?case
    using Cons.IH [OF rest] delta_step_queue(3) [OF d]
    by (simp add: x run_deltaSteps_Cons updates_append)
qed

lemma run_deltas_messageId:
  "nonEmptyDeltas ds \<Longrightarrow> streamsOf w s i = Some st \<Longrightarrow>
   map_option messageId (streamsOf w (fst (run e (deltaSteps w i ds) s)) i) = Some (messageId st)"
proof (induction ds arbitrary: s st)
  case Nil
  then show ?case by (simp add: run_deltaSteps_Nil)
next
  case (Cons x ds)
  obtain a raw d where x: "x = (a, raw, d)" by (cases x)
  have d: "d \<noteq> []" and rest: "nonEmptyDeltas ds"
    using Cons.prems by (simp_all add: x nonEmptyDeltas_Cons)
  let ?s1 = "fst (handleCodexEvent e a i (deltaMsg w raw d) s)"
  obtain st1 where st1: "streamsOf w ?s1 i = Some st1" and mid: "messageId st1 = messageId st"
    using delta_step_streams [OF d, of w e a i raw s] Cons.prems(2) by auto
  show ?case
    using Cons.IH [OF rest st1] mid by (simp add: x run_deltaSteps_Cons)
qed

lemma run_deltas_flag:
  "nonEmptyDeltas ds \<Longrightarrow> flagsOf w s i \<noteq> None \<Longrightarrow>
   flagsOf w (fst (run e (deltaSteps w i ds) s)) i \<noteq> None"
proof (induction ds arbitrary: s)
  case Nil
  then show ?case by (simp add: run_deltaSteps_Nil)
next
  case (Cons x ds)
  obtain a raw d where x: "x = (a, raw, d)" by (cases x)
  have d: "d \<noteq> []" and rest: "nonEmptyDeltas ds"
    using Cons.prems by (simp_all add: x nonEmptyDeltas_Cons)
  show ?case
    using Cons.IH [OF rest delta_step_queue(2) [OF d]] by (simp add: x run_deltaSteps_Cons)
qed

text \<open>After at least one non-empty delta the stream has an entry and its flush is pending.\<close>

lemma run_deltas_pending:
  assumes "nonEmptyDeltas ds" and "ds \<noteq> []"
  shows "flagsOf w (fst (run e (deltaSteps w i ds) s)) i \<noteq> None"
    and "\<exists>st. streamsOf w (fst (run e (deltaSteps w i ds) s)) i = Some st
           \<and> (\<forall>st0. streamsOf w s i = Some st0 \<longrightarrow> messageId st = messageId st0)"
proof -
  obtain a raw d ds1 where ds: "ds = (a, raw, d) # ds1"
    using assms(2) by (cases ds) auto
  have d: "d \<noteq> []" and rest: "nonEmptyDeltas ds1"
    using assms(1) by (simp_all add: ds nonEmptyDeltas_Cons)
  let ?s1 = "fst (handleCodexEvent e a i (deltaMsg w raw d) s)"
  show "flagsOf w (fst (run e (deltaSteps w i ds) s)) i \<noteq> None"
    using run_deltas_flag [OF rest delta_step_queue(2) [OF d]] by (simp add: ds run_deltaSteps_Cons)
  obtain st1 where st1: "streamsOf w ?s1 i = Some st1"
    and mid: "\<forall>st0. streamsOf w s i = Some st0 \<longrightarrow> messageId st1 = messageId st0"
    using delta_step_streams [OF d, of w e a i raw s] by auto
  have "map_option messageId (streamsOf w (fst (run e (deltaSteps w i ds1) ?s1)) i) = Some (messageId st1)"
    using run_deltas_messageId [OF rest st1] .
  then show "\<exists>st. streamsOf w (fst (run e (deltaSteps w i ds) s)) i = Some st
           \<and> (\<forall>st0. streamsOf w s i = Some st0 \<longrightarrow> messageId st = messageId st0)"
    using mid by (auto simp: ds run_deltaSteps_Cons)
qed

text \<open>A registered callback of a stream that has an entry writes the entry's buffer, once.\<close>

lemma frame_fires:
  assumes "flushInv s" and "flagsOf w s i \<noteq> None" and "streamsOf w s i = Some st"
  shows "snd (doStep e (Frame w i) s)
           = [UpdateMessage (sessionId e) (messageId st)
                \<lparr>upd_content = Some (buffer st), upd_isStreaming = None\<rparr>]"
    and "streamsOf w (fst (doStep e (Frame w i) s)) i = Some st"
    and "flagsOf w (fst (doStep e (Frame w i) s)) i = None"
proof -
  have q: "(w, i) \<in> set (rafQueue s)"
    using assms(1,2) by (simp add: flushInv_mem)
  show "snd (doStep e (Frame w i) s)
           = [UpdateMessage (sessionId e) (messageId st)
                \<lparr>upd_content = Some (buffer st), upd_isStreaming = None\<rparr>]"
    using q assms(3) by (cases w) (simp_all add: doStep_def flushCallback_def streamsOf_def setFlags_def Let_def)
  show "streamsOf w (fst (doStep e (Frame w i) s)) i = Some st"
    using q assms(3) by (cases w) (simp_all add: doStep_def flushCallback_def streamsOf_def setFlags_def Let_def)
  show "flagsOf w (fst (doStep e (Frame w i) s)) i = None"
    using q assms(3) by (cases w) (simp_all add: doStep_def flushCallback_def streamsOf_def setFlags_def flagsOf_def Let_def)
qed

text \<open>One flush cycle: deltas, then the frame callback.\<close>

lemma flush_cycle:
  assumes "flushInv s" and "nonEmptyDeltas ds" and "ds \<noteq> []"
  shows "\<exists>st. streamsOf w (fst (run e (deltaSteps w i ds @ [Frame w i]) s)) i = Some st
           \<and> buffer st = bufferOf w i s @ deltaText ds
           \<and> (\<forall>st0. streamsOf w s i = Some st0 \<longrightarrow> messageId st = messageId st0)
           \<and> updates (snd (run e (deltaSteps w i ds @ [Frame w i]) s))
               = [(messageId st, \<lparr>upd_content = Some (bufferOf w i s @ deltaText ds), upd_isStreaming = None\<rparr>)]"
    and "flushInv (fst (run e (deltaSteps w i ds @ [Frame w i]) s))"
    and "count_list (rafQueue (fst (run e (deltaSteps w i ds) s))) (w, i) = 1"
proof -
  let ?s1 = "fst (run e (deltaSteps w i ds) s)"
  have inv1: "flushInv ?s1"
    using assms(1) by (rule run_inv)
  have flag: "flagsOf w ?s1 i \<noteq> None"
    using run_deltas_pending(1) [OF assms(2,3)] .
  obtain st where st: "streamsOf w ?s1 i = Some st"
    and mid: "\<forall>st0. streamsOf w s i = Some st0 \<longrightarrow> messageId st = messageId st0"
    using run_deltas_pending(2) [OF assms(2,3), of w e i s] by auto
  have buf: "buffer st = bufferOf w i s @ deltaText ds"
    using run_deltas_buffer [OF assms(2), of w i e s] st by (simp add: bufferOf_def)
  have "(w, i) \<in> set (rafQueue ?s1)"
    using inv1 flag by (simp add: flushInv_mem)
  moreover have "distinct (rafQueue ?s1)"
    using inv1 by (simp add: flushInv_def)
  ultimately show "count_list (rafQueue ?s1) (w, i) = 1"
    by (simp add: count_list_distinct)
  show "flushInv (fst (run e (deltaSteps w i ds @ [Frame w i]) s))"
    using inv1 by (simp add: run_append run_single doStep_inv)
  have "updates (snd (run e (deltaSteps w i ds @ [Frame w i]) s))
          = [(messageId st, \<lparr>upd_content = Some (buffer st), upd_isStreaming = None\<rparr>)]"
    using frame_fires(1) [OF inv1 flag st, of e] run_deltas_updates [OF assms(2), of e w i s]
    by (simp add: run_append run_single updates_append)
  moreover have "streamsOf w (fst (run e (deltaSteps w i ds @ [Frame w i]) s)) i = Some st"
    using frame_fires(2) [OF inv1 flag st, of e] by (simp add: run_append run_single)
  ultimately show "\<exists>st. streamsOf w (fst (run e (deltaSteps w i ds @ [Frame w i]) s)) i = Some st
           \<and> buffer st = bufferOf w i s @ deltaText ds
           \<and> (\<forall>st0. streamsOf w s i = Some st0 \<longrightarrow> messageId st = messageId st0)
           \<and> updates (snd (run e (deltaSteps w i ds @ [Frame w i]) s))
               = [(messageId st, \<lparr>upd_content = Some (bufferOf w i s @ deltaText ds), upd_isStreaming = None\<rparr>)]"
    using buf mid by simp
qed


text \<open>
  Claim C5. Take a stream of the agent or the reasoning channel and refs in which flags
  and registered callbacks agree (as they do from the start and after every step). A run
  of one or more non-empty deltas makes no update call and leaves exactly one callback
  registered for the stream; when that callback runs it makes exactly one update of the
  stream's transcript entry, with the buffer of that moment as content: the earlier
  buffer followed by all the deltas, so \<open>abc\<close> for the deltas \<open>a\<close>, \<open>b\<close>, \<open>c\<close> of a new stream.
  Deltas after that callback start a new cycle, which ends in a second update of the same
  entry. No key is ever registered twice.
\<close>

theorem delta_coalescing:
  assumes "flushInv s" and "ds \<noteq> []" and "nonEmptyDeltas ds" and "ds' \<noteq> []" and "nonEmptyDeltas ds'"
  shows "\<exists>mid.
           updates (snd (run e (deltaSteps w i ds) s)) = []
         \<and> count_list (rafQueue (fst (run e (deltaSteps w i ds) s))) (w, i) = 1
         \<and> updates (snd (run e (deltaSteps w i ds @ [Frame w i]) s))
             = [(mid, \<lparr>upd_content = Some (bufferOf w i s @ deltaText ds), upd_isStreaming = None\<rparr>)]
         \<and> updates (snd (run e ((deltaSteps w i ds @ [Frame w i]) @ deltaSteps w i ds' @ [Frame w i]) s))
             = [(mid, \<lparr>upd_content = Some (bufferOf w i s @ deltaText ds), upd_isStreaming = None\<rparr>),
                (mid, \<lparr>upd_content = Some (bufferOf w i s @ deltaText ds @ deltaText ds'),
                       upd_isStreaming = None\<rparr>)]
         \<and> (\<forall>xs. distinct (rafQueue (fst (run e xs s))))"
proof -
  let ?c1 = "deltaSteps w i ds @ [Frame w i]"
  let ?c2 = "deltaSteps w i ds' @ [Frame w i]"
  let ?s2 = "fst (run e ?c1 s)"
  obtain st where st: "streamsOf w ?s2 i = Some st"
    and buf: "buffer st = bufferOf w i s @ deltaText ds"
    and up1: "updates (snd (run e ?c1 s))
               = [(messageId st, \<lparr>upd_content = Some (bufferOf w i s @ deltaText ds), upd_isStreaming = None\<rparr>)]"
    using flush_cycle(1) [OF assms(1,3,2), of w e i] by auto
  have inv2: "flushInv ?s2"
    using flush_cycle(2) [OF assms(1,3,2)] .
  have buf2: "bufferOf w i ?s2 = bufferOf w i s @ deltaText ds"
    using st buf by (simp add: bufferOf_def)
  obtain st' where c2: "streamsOf w (fst (run e ?c2 ?s2)) i = Some st'
           \<and> buffer st' = bufferOf w i ?s2 @ deltaText ds'
           \<and> (\<forall>st0. streamsOf w ?s2 i = Some st0 \<longrightarrow> messageId st' = messageId st0)
           \<and> updates (snd (run e ?c2 ?s2))
               = [(messageId st', \<lparr>upd_content = Some (bufferOf w i ?s2 @ deltaText ds'), upd_isStreaming = None\<rparr>)]"
    using flush_cycle(1) [OF inv2 assms(5,4), of w e i] ..
  have same: "\<forall>st0. streamsOf w ?s2 i = Some st0 \<longrightarrow> messageId st' = messageId st0"
    using c2 by (elim conjE)
  have up2: "updates (snd (run e ?c2 ?s2))
               = [(messageId st', \<lparr>upd_content = Some (bufferOf w i ?s2 @ deltaText ds'), upd_isStreaming = None\<rparr>)]"
    using c2 by (elim conjE)
  have mid: "messageId st' = messageId st"
    using same st by simp
  have both: "updates (snd (run e (?c1 @ ?c2) s))
      = [(messageId st, \<lparr>upd_content = Some (bufferOf w i s @ deltaText ds), upd_isStreaming = None\<rparr>),
         (messageId st, \<lparr>upd_content = Some (bufferOf w i s @ deltaText ds @ deltaText ds'),
                          upd_isStreaming = None\<rparr>)]"
  proof -
    have "updates (snd (run e (?c1 @ ?c2) s))
            = updates (snd (run e ?c1 s)) @ updates (snd (run e ?c2 ?s2))"
      by (simp only: run_append [of e ?c1 ?c2 s] snd_conv updates_append)
    then show ?thesis
      using up1 up2 mid buf2 by simp
  qed
  have quiet: "updates (snd (run e (deltaSteps w i ds) s)) = []"
    using assms(3) by (rule run_deltas_updates)
  have one: "count_list (rafQueue (fst (run e (deltaSteps w i ds) s))) (w, i) = 1"
    using flush_cycle(3) [OF assms(1,3,2)] .
  have always: "\<forall>xs. distinct (rafQueue (fst (run e xs s)))"
    using run_inv [OF assms(1)] by (simp add: flushInv_def)
  show ?thesis
    using quiet one up1 both always by (intro exI [of _ "messageId st"] conjI)
qed

theorem delta_coalescing_witness:
  "flushInv initialState
   \<and> nonEmptyDeltas [(sampleAmbient 5, False, ''a''), (sampleAmbient 6, False, ''b''), (sampleAmbient 7, False, ''c'')]
   \<and> nonEmptyDeltas [(sampleAmbient 8, False, ''d'')]
   \<and> count_list (rafQueue (fst (run sampleEnv
        (deltaSteps Agent ''s1''
            [(sampleAmbient 5, False, ''a''), (sampleAmbient 6, False, ''b''), (sampleAmbient 7, False, ''c'')])
        initialState))) (Agent, ''s1'') = 1
   \<and> updates (snd (run sampleEnv
        ((deltaSteps Agent ''s1''
            [(sampleAmbient 5, False, ''a''), (sampleAmbient 6, False, ''b''), (sampleAmbient 7, False, ''c'')]
          @ [Frame Agent ''s1''])
         @ deltaSteps Agent ''s1'' [(sampleAmbient 8, False, ''d'')] @ [Frame Agent ''s1'']) initialState))
       = [(''s-agent-5'', \<lparr>upd_content = Some ''abc'', upd_isStreaming = None\<rparr>),
          (''s-agent-5'', \<lparr>upd_content = Some ''abcd'', upd_isStreaming = None\<rparr>)]"
proof -
  let ?ds = "[(sampleAmbient 5, False, ''a''), (sampleAmbient 6, False, ''b''), (sampleAmbient 7, False, ''c'')]"
  let ?ds' = "[(sampleAmbient 8, False, ''d'')]"
  have h1: "flushInv initialState"
    by (rule flushInv_initialState)
  have h2: "?ds \<noteq> []" by simp
  have h3: "nonEmptyDeltas ?ds" by (simp add: nonEmptyDeltas_def)
  have h4: "?ds' \<noteq> []" by simp
  have h5: "nonEmptyDeltas ?ds'" by (simp add: nonEmptyDeltas_def)
  have once: "count_list (rafQueue (fst (run sampleEnv (deltaSteps Agent ''s1'' ?ds) initialState)))
                (Agent, ''s1'') = 1"
    using delta_coalescing [OF h1 h2 h3 h4 h5, of sampleEnv Agent "''s1''"] by blast
  have calls: "updates (snd (run sampleEnv
        ((deltaSteps Agent ''s1'' ?ds @ [Frame Agent ''s1''])
         @ deltaSteps Agent ''s1'' ?ds' @ [Frame Agent ''s1'']) initialState))
       = [(''s-agent-5'', \<lparr>upd_content = Some ''abc'', upd_isStreaming = None\<rparr>),
          (''s-agent-5'', \<lparr>upd_content = Some ''abcd'', upd_isStreaming = None\<rparr>)]"
    by (simp add: deltaSteps_def doStep_def ev_def sampleEnv_def sampleAmbient_def initialState_def
        Let_def scheduleFlush_def flagsOf_def setFlags_def streamsOf_def flushCallback_def
        addMessageToStore_def showNat_5)
  show ?thesis
    using h1 h3 h5 once calls by blast
qed

end
